theory Spec2Isabelle
  imports Complex_Main "HOL-Library.AList" "HOL-Library.Sublist"
begin

section \<open>JavaScript strings\<close>

text \<open>
  A string is a list of bytes (its UTF-8 text). Every pattern the program searches for is
  ASCII, and an ASCII byte never occurs inside a multi-byte UTF-8 sequence, so the
  substring tests below agree with the ones on UTF-16 code units.
\<close>

text \<open>\<^verbatim>\<open>s.includes(sub)\<close>: \<open>sub\<close> occurs in \<open>s\<close> as a contiguous block.\<close>

fun str_includes :: "string \<Rightarrow> string \<Rightarrow> bool" where
  "str_includes [] sub = (sub = [])"
| "str_includes (c # cs) sub = (prefix sub (c # cs) \<or> str_includes cs sub)"

definition is_digit :: "char \<Rightarrow> bool" where
  "is_digit c = (c \<in> set ''0123456789'')"

text \<open>The upper case of an ASCII letter; any other byte is left as it is.\<close>

definition upper_char :: "char \<Rightarrow> char" where
  "upper_char c =
     (case map_of (zip ''abcdefghijklmnopqrstuvwxyz'' ''ABCDEFGHIJKLMNOPQRSTUVWXYZ'') c of
        Some u \<Rightarrow> u
      | None \<Rightarrow> c)"

definition is_ascii :: "char \<Rightarrow> bool" where
  "is_ascii c = (of_char c < (128 :: nat))"

text \<open>
  The case folding of a regular expression with the flag \<^verbatim>\<open>i\<close> and without the flag
  \<^verbatim>\<open>u\<close>: a character is compared by its upper case, except that a character outside
  ASCII is never taken to an ASCII one. So against an ASCII pattern only the ASCII letters
  of the subject fold, and a byte of a multi-byte character matches nothing.
\<close>

definition ascii_fold :: "string \<Rightarrow> string" where
  "ascii_fold s = map upper_char s"

text \<open>
  \<^verbatim>\<open>s.match(/LABEL(\d+)/)?.[1]\<close> for a literal label: the leftmost place where the label
  is followed by a digit, and there the longest run of digits (the quantifier is greedy).
  \<open>None\<close> is \<^verbatim>\<open>undefined\<close>: no match.
\<close>

fun match_digits_after :: "string \<Rightarrow> string \<Rightarrow> string option" where
  "match_digits_after lbl [] = None"
| "match_digits_after lbl (c # cs) =
     (if prefix lbl (c # cs) \<and> takeWhile is_digit (drop (length lbl) (c # cs)) \<noteq> []
      then Some (takeWhile is_digit (drop (length lbl) (c # cs)))
      else match_digits_after lbl cs)"

text \<open>
  \<^verbatim>\<open>/a|b|.../i.test(s)\<close> for literal alternatives: some alternative occurs in \<open>s\<close>, letters
  compared without case.
\<close>

definition test_any_ci :: "string list \<Rightarrow> string \<Rightarrow> bool" where
  "test_any_ci alts s = list_ex (\<lambda>a. str_includes (ascii_fold s) (ascii_fold a)) alts"

section \<open>Classification of the user agent\<close>

definition getOperatingSystem :: "string \<Rightarrow> string" where
  "getOperatingSystem userAgent =
     (if str_includes userAgent ''Win'' then ''Windows''
      else if str_includes userAgent ''Android'' then ''Android''
      else if str_includes userAgent ''Mac'' then ''macOS (Apple)''
      else if str_includes userAgent ''Linux'' then ''Linux''
      else if str_includes userAgent ''CrOS'' then ''Chrome OS''
      else if str_includes userAgent ''iPhone'' \<or> str_includes userAgent ''iPad''
        then ''iOS (Apple)''
      else ''Unknown/Other'')"

text \<open>\<^verbatim>\<open>x || ""\<close> on the optional capture: a capture is never empty, so only no match gives \<open>""\<close>.\<close>

definition or_empty :: "string option \<Rightarrow> string" where
  "or_empty m = (case m of None \<Rightarrow> '''' | Some v \<Rightarrow> (if v = [] then '''' else v))"

definition getBrowser :: "string \<Rightarrow> string" where
  "getBrowser userAgent =
     (let (browser, version) =
        (if str_includes userAgent ''Chrome'' \<and> \<not> str_includes userAgent ''Edg''
           then (''Chrome'', or_empty (match_digits_after ''Chrome/'' userAgent))
         else if str_includes userAgent ''Firefox''
           then (''Firefox'', or_empty (match_digits_after ''Firefox/'' userAgent))
         else if str_includes userAgent ''Safari'' \<and> \<not> str_includes userAgent ''Chrome''
           then (''Safari'', or_empty (match_digits_after ''Version/'' userAgent))
         else if str_includes userAgent ''Edg''
           then (''Edge'', or_empty (match_digits_after ''Edg/'' userAgent))
         else if str_includes userAgent ''MSIE'' \<or> str_includes userAgent ''Trident''
           then (''Internet Explorer'', '''')
         else (''Unknown'', ''''))
      in if version \<noteq> [] then browser @ '' (v'' @ version @ '')'' else browser)"

section \<open>JavaScript numbers\<close>

text \<open>
  A Number is a double: a finite one is a rational, taken here by its exact value (the two
  zeros are one value: the program only prints and tests numbers, and \<open>-0\<close> prints and
  tests as \<open>0\<close>).
\<close>

datatype number = Finite rat | PosInfinity | NegInfinity | NaN

text \<open>
  What the program needs from the host and cannot be read off its text:
  \<^item> \<open>shortest_digits\<close>: \<^verbatim>\<open>Number::toString\<close> on a finite number that is not an integer of
    magnitude at most \<open>2^53\<close> (the shortest decimal that reads back as the same double);
  \<^item> \<open>null_read_message\<close>: the message of the TypeError raised by reading the named property
    of \<^verbatim>\<open>null\<close> or \<^verbatim>\<open>undefined\<close>;
  \<^item> \<open>to_primitive_message\<close>: the message of the TypeError raised by converting to a
    string an object that has no callable \<^verbatim>\<open>toString\<close>;
  \<^item> \<open>unicode_toUpperCase\<close>: \<^verbatim>\<open>String.prototype.toUpperCase\<close> on a string that has a
    character outside ASCII (the Unicode case mapping, on the UTF-8 text);
  \<^item> \<open>bad_locale_message\<close>: the message of the RangeError raised for a locale argument
    that is not a language tag.
\<close>

record engine =
  shortest_digits :: "rat \<Rightarrow> string"
  null_read_message :: "string \<Rightarrow> string"
  to_primitive_message :: string
  unicode_toUpperCase :: "string \<Rightarrow> string"
  bad_locale_message :: "string \<Rightarrow> string"

text \<open>
  \<^verbatim>\<open>String.prototype.toUpperCase\<close>: on an ASCII string the letters \<open>a\<close> to \<open>z\<close> become
  \<open>A\<close> to \<open>Z\<close> and nothing else changes (the mapping does not depend on the locale).
\<close>

definition toUpperCase :: "engine \<Rightarrow> string \<Rightarrow> string" where
  "toUpperCase eng s =
     (if list_all is_ascii s then map upper_char s else unicode_toUpperCase eng s)"

function nat_ToString :: "nat \<Rightarrow> string" where
  "nat_ToString n =
     (if n < 10 then [''0123456789'' ! n]
      else nat_ToString (n div 10) @ [''0123456789'' ! (n mod 10)])"
  by pat_completeness auto
termination
  by (relation "measure id") auto

declare nat_ToString.simps [simp del]

definition int_ToString :: "int \<Rightarrow> string" where
  "int_ToString i = (if i < 0 then ''-'' @ nat_ToString (nat (- i)) else nat_ToString (nat i))"

text \<open>
  \<^verbatim>\<open>Number::toString(x)\<close>, radix 10. An integer of magnitude at most \<open>2^53\<close> prints as its
  decimal digits: all such integers are doubles, so no shorter decimal reads back as it.
\<close>

definition Number_toString :: "engine \<Rightarrow> number \<Rightarrow> string" where
  "Number_toString eng x =
     (case x of
        NaN \<Rightarrow> ''NaN''
      | PosInfinity \<Rightarrow> ''Infinity''
      | NegInfinity \<Rightarrow> ''-Infinity''
      | Finite q \<Rightarrow>
          (if of_int \<lfloor>q\<rfloor> = q \<and> \<bar>q\<bar> \<le> 2 ^ 53 then int_ToString \<lfloor>q\<rfloor>
           else shortest_digits eng q))"

text \<open>
  \<^verbatim>\<open>Number.prototype.toFixed(f)\<close> (ECMA-262): a number that is not finite prints by
  \<^verbatim>\<open>Number::toString\<close>; the sign is split off; a magnitude of \<open>10^21\<close> or more prints by
  \<^verbatim>\<open>Number::toString\<close>; otherwise \<open>n\<close> is the integer with \<open>n / 10^f\<close> nearest to the
  magnitude, the larger one of two, printed with the point before its last \<open>f\<close> digits.
\<close>

definition toFixed :: "engine \<Rightarrow> number \<Rightarrow> nat \<Rightarrow> string" where
  "toFixed eng x f =
     (case x of
        Finite q \<Rightarrow>
          (let s = (if q < 0 then ''-'' else '''');
               a = \<bar>q\<bar>
           in if a \<ge> 10 ^ 21 then s @ Number_toString eng (Finite a)
              else
                (let n = nat \<lfloor>a * 10 ^ f + 1 / 2\<rfloor>;
                     m = nat_ToString n;
                     padded = replicate (Suc f - length m) CHR ''0'' @ m;
                     k = length padded
                 in s @ (if f \<noteq> 0 then take (k - f) padded @ ''.'' @ drop (k - f) padded
                         else m)))
      | _ \<Rightarrow> Number_toString eng x)"

section \<open>JavaScript values\<close>

text \<open>
  The values the program handles: what \<^verbatim>\<open>JSON.parse\<close> builds, the object literals of the
  program, and \<^verbatim>\<open>undefined\<close> for a property that is not there. An object is the list of
  its own properties in insertion order, each key once.
\<close>

datatype jsval =
    JUndefined
  | JNull
  | JBool bool
  | JNum number
  | JStr string
  | JArr "jsval list"
  | JObj "(string \<times> jsval) list"

datatype js_error = Error (message: string) | TypeError (message: string)
  | SyntaxError (message: string) | RangeError (message: string)

fun truthy :: "jsval \<Rightarrow> bool" where
  "truthy JUndefined = False"
| "truthy JNull = False"
| "truthy (JBool b) = b"
| "truthy (JNum n) = (n \<noteq> NaN \<and> n \<noteq> Finite 0)"
| "truthy (JStr s) = (s \<noteq> [])"
| "truthy (JArr xs) = True"
| "truthy (JObj ps) = True"

text \<open>\<^verbatim>\<open>a || b\<close>\<close>

definition js_or :: "jsval \<Rightarrow> jsval \<Rightarrow> jsval" where
  "js_or a b = (if truthy a then a else b)"

text \<open>\<^verbatim>\<open>Array.prototype.join\<close>'s concatenation with a separator.\<close>

fun join_with :: "string \<Rightarrow> string list \<Rightarrow> string" where
  "join_with sep [] = ''''"
| "join_with sep [x] = x"
| "join_with sep (x # y # ys) = x @ sep @ join_with sep (y # ys)"

text \<open>The results of a list of steps run in order: the first error, or all the values.\<close>

primrec collect :: "('e + 'a) list \<Rightarrow> 'e + 'a list" where
  "collect [] = Inr []"
| "collect (r # rs) =
     (case r of
        Inl e \<Rightarrow> Inl e
      | Inr x \<Rightarrow> (case collect rs of Inl e \<Rightarrow> Inl e | Inr xs \<Rightarrow> Inr (x # xs)))"

text \<open>
  \<^verbatim>\<open>ToString(v)\<close>, as a template literal and \<^verbatim>\<open>new Error(v)\<close> apply it. An array prints
  its elements joined by commas, \<^verbatim>\<open>null\<close> and \<^verbatim>\<open>undefined\<close> elements as nothing. A
  plain object prints as \<^verbatim>\<open>[object Object]\<close> by the inherited \<^verbatim>\<open>toString\<close>; an own
  property of that name hides it, and as no value here is callable, the conversion then
  raises a TypeError.
\<close>

fun ToString :: "engine \<Rightarrow> jsval \<Rightarrow> js_error + string" where
  "ToString eng JUndefined = Inr ''undefined''"
| "ToString eng JNull = Inr ''null''"
| "ToString eng (JBool b) = Inr (if b then ''true'' else ''false'')"
| "ToString eng (JNum n) = Inr (Number_toString eng n)"
| "ToString eng (JStr s) = Inr s"
| "ToString eng (JArr xs) =
     (case collect
             (map (\<lambda>x. if x = JNull \<or> x = JUndefined then Inr '''' else ToString eng x) xs) of
        Inl e \<Rightarrow> Inl e
      | Inr ss \<Rightarrow> Inr (join_with '','' ss))"
| "ToString eng (JObj ps) =
     (if map_of ps ''toString'' = None then Inr ''[object Object]''
      else Inl (TypeError (to_primitive_message eng)))"

text \<open>
  \<^verbatim>\<open>v.p\<close> for the property names the program reads; none of them is defined on a
  built-in prototype, so only an object has them. \<open>prop_of\<close> is the read on a value that
  is neither \<^verbatim>\<open>null\<close> nor \<^verbatim>\<open>undefined\<close>; \<open>get_prop\<close> raises on those two.
\<close>

fun prop_of :: "jsval \<Rightarrow> string \<Rightarrow> jsval" where
  "prop_of (JObj ps) p = (case map_of ps p of None \<Rightarrow> JUndefined | Some v \<Rightarrow> v)"
| "prop_of v p = JUndefined"

definition get_prop :: "engine \<Rightarrow> jsval \<Rightarrow> string \<Rightarrow> js_error + jsval" where
  "get_prop eng v p =
     (if v = JNull \<or> v = JUndefined then Inl (TypeError (null_read_message eng p))
      else Inr (prop_of v p))"

text \<open>
  \<^verbatim>\<open>{...a, ...b}\<close> on two objects: the properties of \<open>a\<close>, then those of \<open>b\<close>, a key of
  \<open>b\<close> that \<open>a\<close> has keeping its place and taking the value of \<open>b\<close>. (A \<^verbatim>\<open>null\<close> or
  \<^verbatim>\<open>undefined\<close> operand adds nothing; the program only spreads its own object literals.)
\<close>

fun own_props :: "jsval \<Rightarrow> (string \<times> jsval) list" where
  "own_props (JObj ps) = ps"
| "own_props v = []"

definition spread :: "jsval \<Rightarrow> jsval \<Rightarrow> jsval" where
  "spread a b =
     JObj (foldl (\<lambda>acc (k, v). AList.update k v acc) (own_props a) (own_props b))"

section \<open>The local profiler\<close>

text \<open>
  The browser objects the profiler reads, typed as their Web IDL interfaces are: a
  property a browser does not have is \<open>None\<close> (\<^verbatim>\<open>undefined\<close>).
\<close>

record connection =
  effectiveType :: "string option"
  downlink :: "number option"

record navigator =
  userAgent :: string
  nav_connection :: "connection option"
  mozConnection :: "connection option"
  webkitConnection :: "connection option"
  language :: "string option"

record screen =
  width :: int
  height :: int

text \<open>
  \<open>now_toISOString\<close> and \<open>now_toLocaleTimeString\<close> are the two renderings of the instant
  \<^verbatim>\<open>new Date()\<close> captures, the second one for the locale argument it is given (with the
  fixed formatting options of the program). The second one raises a RangeError when the
  argument is not a structurally valid language tag; what it does is the host's, \<open>Inl\<close>
  being the error.
\<close>

record browser =
  navigator :: navigator
  screen :: screen
  now_toISOString :: string
  now_toLocaleTimeString :: "string option \<Rightarrow> js_error + string"

text \<open>
  A string that is certainly no language tag: the empty string, and a string with a
  character other than an ASCII letter, a digit or a hyphen (an underscore among them).
\<close>

definition ill_formed_tag :: "string \<Rightarrow> bool" where
  "ill_formed_tag t =
     (t = [] \<or>
      \<not> list_all
          (\<lambda>c. c \<in> set ''abcdefghijklmnopqrstuvwxyzABCDEFGHIJKLMNOPQRSTUVWXYZ0123456789-'') t)"

text \<open>
  \<^verbatim>\<open>now.toLocaleTimeString(locales, options)\<close>: no locale argument (\<^verbatim>\<open>undefined\<close>) means
  the default locale; a string that is certainly no language tag raises the RangeError;
  for any other string the host decides (it raises on the other malformed tags).
\<close>

definition toLocaleTimeString :: "engine \<Rightarrow> browser \<Rightarrow> string option \<Rightarrow> js_error + string" where
  "toLocaleTimeString eng env locales =
     (case locales of
        None \<Rightarrow> now_toLocaleTimeString env None
      | Some t \<Rightarrow>
          (if ill_formed_tag t then Inl (RangeError (bad_locale_message eng t))
           else now_toLocaleTimeString env (Some t)))"

text \<open>\<^verbatim>\<open>a || b\<close> on optional objects: an object is truthy.\<close>

definition obj_or :: "'a option \<Rightarrow> 'a option \<Rightarrow> 'a option" where
  "obj_or a b = (case a of Some x \<Rightarrow> Some x | None \<Rightarrow> b)"

definition str_val :: "string option \<Rightarrow> jsval" where
  "str_val s = (case s of None \<Rightarrow> JUndefined | Some t \<Rightarrow> JStr t)"

text \<open>
  The properties of the object literal are evaluated in order; the only step that can
  raise is the rendering of the local time, and when it does no object is built.
\<close>

definition collectClientData :: "engine \<Rightarrow> browser \<Rightarrow> string option \<Rightarrow> js_error + jsval" where
  "collectClientData eng env clientName_arg =
     (let clientName = (case clientName_arg of None \<Rightarrow> ''Anonymous'' | Some n \<Rightarrow> n);
          userAgent = userAgent (navigator env);
          connection = obj_or (obj_or (nav_connection (navigator env))
                                      (mozConnection (navigator env)))
                              (webkitConnection (navigator env));
          effectiveType =
            (case connection of
               Some c \<Rightarrow>
                 (case effectiveType c of
                    Some t \<Rightarrow> (if truthy (JStr t) then toUpperCase eng t else ''N/A'')
                  | None \<Rightarrow> ''N/A'')
             | None \<Rightarrow> ''N/A'');
          speed =
            (case connection of
               Some c \<Rightarrow>
                 (case downlink c of
                    Some d \<Rightarrow>
                      (if truthy (JNum d) then toFixed eng d 1 @ '' Mbps'' else ''N/A'')
                  | None \<Rightarrow> ''N/A'')
             | None \<Rightarrow> ''N/A'');
          isMobile = test_any_ci [''Mobi'', ''Android'', ''iPhone'', ''iPad'', ''Windows Phone'']
                       userAgent
      in case toLocaleTimeString eng env (language (navigator env)) of
           Inl e \<Rightarrow> Inl e
         | Inr localTimeFormatted \<Rightarrow>
             Inr (JObj
               [(''name'', JStr clientName),
                (''logTimestamp'', JStr (now_toISOString env)),
                (''os'', JStr (getOperatingSystem userAgent)),
                (''browser'', JStr (getBrowser userAgent)),
                (''resolution'',
                   JStr (int_ToString (width (screen env)) @ ''x''
                         @ int_ToString (height (screen env)))),
                (''deviceType'', JStr (if isMobile then ''Mobile/Tablet'' else ''Desktop'')),
                (''connectionSpeed'', JStr (effectiveType @ '' ('' @ speed @ '')'')),
                (''browserLanguage'',
                   js_or (str_val (language (navigator env))) (JStr ''N/A'')),
                (''localTimeFormatted'', JStr localTimeFormatted),
                (''userAgent'', JStr userAgent)]))"

section \<open>Effects: the network and the console\<close>

text \<open>
  A request as \<^verbatim>\<open>fetch\<close> is given it. \<open>body\<close> holds the value whose
  \<^verbatim>\<open>JSON.stringify\<close> text is sent (\<open>None\<close>: no body). A response carries its status,
  and what \<^verbatim>\<open>response.json()\<close> settles to: the decoded body, or the error of a body that
  does not parse. \<^verbatim>\<open>response.ok\<close> is, by the Fetch standard, a status from 200 to 299.
\<close>

record request =
  url :: string
  http_method :: string
  headers :: "(string \<times> string) list"
  body :: "jsval option"

record response =
  status :: nat
  json_body :: "js_error + jsval"

definition ok :: "response \<Rightarrow> bool" where
  "ok r = (200 \<le> status r \<and> status r \<le> 299)"

text \<open>The network: what each request settles to, a response or a rejection.\<close>

type_synonym network = "request \<Rightarrow> js_error + response"

datatype event =
    Fetch request
  | Console_log string
  | Console_error string "js_error option"

text \<open>
  An awaited computation: the value it returns or the error it throws, and the events it
  caused, in order. The program awaits every call, so its steps run one after another.
\<close>

type_synonym 'a io = "(js_error + 'a) \<times> event list"

definition ret :: "'a \<Rightarrow> 'a io" where
  "ret x = (Inr x, [])"

definition throw :: "js_error \<Rightarrow> 'a io" where
  "throw e = (Inl e, [])"

definition bind :: "'a io \<Rightarrow> ('a \<Rightarrow> 'b io) \<Rightarrow> 'b io" where
  "bind m f =
     (case m of
        (Inl e, t) \<Rightarrow> (Inl e, t)
      | (Inr x, t) \<Rightarrow> (case f x of (r, t') \<Rightarrow> (r, t @ t')))"

text \<open>\<^verbatim>\<open>try { m } catch (error) { h }\<close>\<close>

definition try_catch :: "'a io \<Rightarrow> (js_error \<Rightarrow> 'a io) \<Rightarrow> 'a io" where
  "try_catch m h =
     (case m of
        (Inl e, t) \<Rightarrow> (case h e of (r, t') \<Rightarrow> (r, t @ t'))
      | (Inr x, t) \<Rightarrow> (Inr x, t))"

definition lift :: "js_error + 'a \<Rightarrow> 'a io" where
  "lift r = (r, [])"

definition console_log :: "string \<Rightarrow> unit io" where
  "console_log s = (Inr (), [Console_log s])"

definition console_error :: "string \<Rightarrow> js_error option \<Rightarrow> unit io" where
  "console_error s e = (Inr (), [Console_error s e])"

definition fetch :: "network \<Rightarrow> request \<Rightarrow> response io" where
  "fetch net req = (net req, [Fetch req])"

section \<open>The geo resolver\<close>

definition ALTERNATE_IP_API_URL :: string where
  "ALTERNATE_IP_API_URL = ''http://ip-api.com/json''"

definition LOGGING_ENDPOINT :: string where
  "LOGGING_ENDPOINT = ''https://data-store-id-3476854t7ewgbm09us.vercel.app/''"

text \<open>\<^verbatim>\<open>fetch(ALTERNATE_IP_API_URL)\<close>: a GET with no headers and no body.\<close>

definition geo_request :: request where
  "geo_request = \<lparr>url = ALTERNATE_IP_API_URL, http_method = ''GET'', headers = [], body = None\<rparr>"

text \<open>
  The first read of \<^verbatim>\<open>geoData.status\<close> raises on a \<^verbatim>\<open>null\<close> body; once it has
  returned, \<open>geoData\<close> is not \<^verbatim>\<open>null\<close> and the later reads are \<open>prop_of\<close>. Of the
  steps that build the record only the two conversions of the template literal can raise
  (\<open>lat\<close> first); \<^verbatim>\<open>new Error(v)\<close> converts its argument before the error exists.
\<close>

definition fetchAlternateGeoData :: "engine \<Rightarrow> network \<Rightarrow> jsval io" where
  "fetchAlternateGeoData eng net =
     try_catch
       (bind (fetch net geo_request) (\<lambda>response.
        bind (if \<not> ok response
              then throw (Error (''HTTP error from ip-api.com! Status: ''
                                 @ nat_ToString (status response)))
              else ret ()) (\<lambda>_.
        bind (lift (json_body response)) (\<lambda>geoData.
        bind (lift (get_prop eng geoData ''status'')) (\<lambda>geoData_status.
          if truthy geoData_status \<and> geoData_status = JStr ''success''
          then
            bind (lift (ToString eng (prop_of geoData ''lat''))) (\<lambda>lat.
            bind (lift (ToString eng (prop_of geoData ''lon''))) (\<lambda>lon.
            ret (JObj
                 [(''ip'', prop_of geoData ''query''),
                  (''org'', prop_of geoData ''isp''),
                  (''asn'', prop_of geoData ''as''),
                  (''countryCode'', prop_of geoData ''countryCode''),
                  (''region'', prop_of geoData ''regionName''),
                  (''city'', prop_of geoData ''city''),
                  (''zip'', prop_of geoData ''zip''),
                  (''coords'', JStr (lat @ '','' @ lon)),
                  (''timezone'', prop_of geoData ''timezone''),
                  (''apiSource'', JStr ''ip-api.com'')])))
          else
            bind (lift (ToString eng
                    (js_or (prop_of geoData ''message'')
                           (JStr ''Alternate API returned failure status.'')))) (\<lambda>msg.
            throw (Error msg)))))))
       (\<lambda>error.
        bind (console_error ''Error fetching data from alternate API:'' (Some error)) (\<lambda>_.
        throw (Error (''Failed to retrieve alternate geolocation data: '' @ message error))))"

section \<open>The payload transmitter\<close>

definition log_request :: "jsval \<Rightarrow> request" where
  "log_request data =
     \<lparr>url = LOGGING_ENDPOINT, http_method = ''POST'',
      headers = [(''Content-Type'', ''application/json'')], body = Some data\<rparr>"

definition sendDataToLog :: "network \<Rightarrow> jsval \<Rightarrow> bool io" where
  "sendDataToLog net data =
     try_catch
       (bind (fetch net (log_request data)) (\<lambda>response.
        bind (if ok response
              then console_log ''User data successfully logged to external service.''
              else console_error (''Failed to log data. Status: ''
                                  @ nat_ToString (status response) @ ''.'') None) (\<lambda>_.
        ret (ok response))))
       (\<lambda>error.
        bind (console_error ''Error during data logging fetch operation:'' (Some error)) (\<lambda>_.
        ret False))"

section \<open>The orchestrator\<close>

text \<open>The result is the merged payload, or \<open>JNull\<close> for \<^verbatim>\<open>null\<close>.\<close>

definition runAlternateDataTransfer ::
  "engine \<Rightarrow> browser \<Rightarrow> network \<Rightarrow> string option \<Rightarrow> jsval io" where
  "runAlternateDataTransfer eng env net clientName =
     bind (console_log
             ''Starting data collection and transfer using Alternate API structure...'') (\<lambda>_.
     try_catch
       (bind (lift (collectClientData eng env clientName)) (\<lambda>clientData.
        bind (fetchAlternateGeoData eng net) (\<lambda>geoData.
        bind (ret (spread clientData geoData)) (\<lambda>fullPayload.
        bind (sendDataToLog net fullPayload) (\<lambda>success.
        bind (if success
              then console_log ''Full payload successfully transferred to logging server.''
              else console_log ''Data transfer failed.'') (\<lambda>_.
        ret fullPayload))))))
       (\<lambda>error.
        bind (console_error (''Data transfer process failed: '' @ message error) None) (\<lambda>_.
        ret JNull)))"

section \<open>Observations and example hosts\<close>

text \<open>
  A request to the logging endpoint. \<open>sendDataToLog\<close> begins with one, so a run that
  shows none has not called it (lemma \<open>sendDataToLog_sends\<close>).
\<close>

definition sends_to_log :: "event \<Rightarrow> bool" where
  "sends_to_log ev = (case ev of Fetch r \<Rightarrow> url r = LOGGING_ENDPOINT | _ \<Rightarrow> False)"

text \<open>Concrete hosts, for the examples below.\<close>

definition example_engine :: engine where
  "example_engine =
     \<lparr>shortest_digits = (\<lambda>q. ''''),
      null_read_message = (\<lambda>p. ''Cannot read properties of null (reading '' @ p @ '')''),
      to_primitive_message = ''Cannot convert object to primitive value'',
      unicode_toUpperCase = (\<lambda>s. s),
      bad_locale_message = (\<lambda>t. ''Incorrect locale information provided'')\<rparr>"

definition example_browser :: browser where
  "example_browser =
     \<lparr>navigator =
        \<lparr>userAgent = ''Mozilla/5.0 (X11; Linux x86_64; rv:120.0) Gecko/20100101 Firefox/120.0'',
         nav_connection = None, mozConnection = None, webkitConnection = None,
         language = Some ''en-US''\<rparr>,
      screen = \<lparr>width = 1920, height = 1080\<rparr>,
      now_toISOString = ''2024-01-01T00:00:00.000Z'',
      now_toLocaleTimeString = (\<lambda>l. Inr ''Mon, Jan 1, 2024, 12:00 AM'')\<rparr>"

text \<open>A network on which every request is rejected.\<close>

definition failing_network :: network where
  "failing_network req = Inl (TypeError ''Failed to fetch'')"

text \<open>The same browser with \<^verbatim>\<open>navigator.connection\<close> set.\<close>

definition browser_with_connection :: "connection \<Rightarrow> browser" where
  "browser_with_connection c =
     example_browser\<lparr>navigator := (navigator example_browser)\<lparr>nav_connection := Some c\<rparr>\<rparr>"

text \<open>The same browser reporting the given \<^verbatim>\<open>navigator.language\<close>.\<close>

definition browser_with_language :: "string option \<Rightarrow> browser" where
  "browser_with_language l =
     example_browser\<lparr>navigator := (navigator example_browser)\<lparr>language := l\<rparr>\<rparr>"

text \<open>
  A network that answers the geolocation request with status 200 and the given decoded
  body, and every other request with the given status.
\<close>

definition geo_network :: "jsval \<Rightarrow> nat \<Rightarrow> network" where
  "geo_network geo_body log_status req =
     (if url req = ALTERNATE_IP_API_URL then Inr \<lparr>status = 200, json_body = Inr geo_body\<rparr>
      else Inr \<lparr>status = log_status,
                json_body = Inl (SyntaxError ''Unexpected end of JSON input'')\<rparr>)"

text \<open>The response bodies of the examples, and the record the first one maps to.\<close>

definition acme_body :: jsval where
  "acme_body =
     JObj [(''status'', JStr ''success''), (''query'', JStr ''1.2.3.4''),
           (''isp'', JStr ''ACME''), (''as'', JStr ''AS1 ACME''), (''countryCode'', JStr ''US''),
           (''regionName'', JStr ''CA''), (''city'', JStr ''X''), (''zip'', JStr ''90000''),
           (''lat'', JNum (Finite 1.0)), (''lon'', JNum (Finite 2.0)),
           (''timezone'', JStr ''UTC'')]"

definition acme_record :: jsval where
  "acme_record =
     JObj [(''ip'', JStr ''1.2.3.4''), (''org'', JStr ''ACME''), (''asn'', JStr ''AS1 ACME''),
           (''countryCode'', JStr ''US''), (''region'', JStr ''CA''), (''city'', JStr ''X''),
           (''zip'', JStr ''90000''), (''coords'', JStr ''1,2''), (''timezone'', JStr ''UTC''),
           (''apiSource'', JStr ''ip-api.com'')]"

definition invalid_query_body :: jsval where
  "invalid_query_body = JObj [(''status'', JStr ''fail''), (''message'', JStr ''invalid query'')]"

definition bare_fail_body :: jsval where
  "bare_fail_body = JObj [(''status'', JStr ''fail'')]"

definition bare_success_body :: jsval where
  "bare_success_body = JObj [(''status'', JStr ''success'')]"

text \<open>
  The profile of the example browser, for a given network descriptor (the only field the
  connection object decides).
\<close>

definition example_profile :: "string \<Rightarrow> jsval" where
  "example_profile descriptor =
     JObj [(''name'', JStr ''Anonymous''),
           (''logTimestamp'', JStr ''2024-01-01T00:00:00.000Z''),
           (''os'', JStr ''Linux''),
           (''browser'', JStr ''Firefox (v120)''),
           (''resolution'', JStr ''1920x1080''),
           (''deviceType'', JStr ''Desktop''),
           (''connectionSpeed'', JStr descriptor),
           (''browserLanguage'', JStr ''en-US''),
           (''localTimeFormatted'', JStr ''Mon, Jan 1, 2024, 12:00 AM''),
           (''userAgent'',
              JStr ''Mozilla/5.0 (X11; Linux x86_64; rv:120.0) Gecko/20100101 Firefox/120.0'')]"

section \<open>Properties\<close>

subsection \<open>Strings\<close>

lemma str_includes_iff_sublist: "str_includes s sub \<longleftrightarrow> sublist sub s"
  by (induction s) (auto simp: sublist_Cons_right)

lemma match_digits_after_Some:
  "match_digits_after lbl s = Some v \<Longrightarrow> v \<noteq> [] \<and> list_all is_digit v"
proof (induction s)
  case Nil
  then show ?case by simp
next
  case (Cons c cs)
  show ?case
  proof (cases "prefix lbl (c # cs) \<and> takeWhile is_digit (drop (length lbl) (c # cs)) \<noteq> []")
    case True
    with Cons.prems have v: "v = takeWhile is_digit (drop (length lbl) (c # cs))" by simp
    have "list_all is_digit (takeWhile is_digit (drop (length lbl) (c # cs)))"
      by (simp add: list_all_iff) (meson set_takeWhileD)
    with True v show ?thesis by simp
  next
    case False
    with Cons.prems have "match_digits_after lbl cs = Some v" by (simp split: if_splits)
    then show ?thesis by (rule Cons.IH)
  qed
qed

lemma or_empty_match:
  "or_empty (match_digits_after lbl s) = [] \<or>
   (\<exists>v. v \<noteq> [] \<and> list_all is_digit v \<and> or_empty (match_digits_after lbl s) = v)"
  by (cases "match_digits_after lbl s") (auto simp: or_empty_def dest: match_digits_after_Some)

lemma match_digits_after_None:
  "match_digits_after lbl s = None \<Longrightarrow> s = p @ lbl @ d # r \<Longrightarrow> is_digit d \<Longrightarrow> False"
proof (induction s arbitrary: p)
  case Nil
  then show ?case by simp
next
  case (Cons c cs)
  show ?case
  proof (cases p)
    case Nil
    with Cons.prems(2) have s: "c # cs = lbl @ d # r" by simp
    then have "prefix lbl (c # cs)" by simp
    moreover from s Cons.prems(3)
    have "takeWhile is_digit (drop (length lbl) (c # cs)) \<noteq> []" by simp
    ultimately show ?thesis using Cons.prems(1) by simp
  next
    case (Cons c' p')
    with Cons.prems(2) have "cs = p' @ lbl @ d # r" by simp
    moreover from Cons.prems(1) have "match_digits_after lbl cs = None"
      by (simp split: if_splits)
    ultimately show ?thesis using Cons.IH Cons.prems(3) by blast
  qed
qed

lemma match_digits_after_leftmost:
  assumes "match_digits_after lbl s = Some v"
  shows "\<exists>pre rest.
           s = pre @ lbl @ v @ rest \<and> v \<noteq> [] \<and> list_all is_digit v \<and>
           (rest = [] \<or> \<not> is_digit (hd rest)) \<and>
           (\<forall>p d r. s = p @ lbl @ d # r \<and> is_digit d \<longrightarrow> length pre \<le> length p)"
  using assms
proof (induction s)
  case Nil
  then show ?case by simp
next
  case (Cons c cs)
  let ?tl = "drop (length lbl) (c # cs)"
  show ?case
  proof (cases "prefix lbl (c # cs) \<and> takeWhile is_digit ?tl \<noteq> []")
    case True
    with Cons.prems have v: "v = takeWhile is_digit ?tl" by simp
    from True have s: "c # cs = lbl @ ?tl"
      by (metis append_eq_conv_conj prefixE)
    have split: "?tl = v @ dropWhile is_digit ?tl"
      by (simp add: v)
    have digits: "list_all is_digit v"
      unfolding v by (simp add: list_all_iff) (meson set_takeWhileD)
    have stop: "dropWhile is_digit ?tl = [] \<or> \<not> is_digit (hd (dropWhile is_digit ?tl))"
      by (metis hd_dropWhile)
    have "c # cs = [] @ lbl @ v @ dropWhile is_digit ?tl"
      using s split by simp
    with True v digits stop show ?thesis
      by (intro exI [of _ "[]"] exI [of _ "dropWhile is_digit ?tl"]) simp
  next
    case False
    with Cons.prems have "match_digits_after lbl cs = Some v" by (simp split: if_splits)
    from Cons.IH [OF this] obtain pre rest where
      cs: "cs = pre @ lbl @ v @ rest" and v: "v \<noteq> []" "list_all is_digit v"
      and stop: "rest = [] \<or> \<not> is_digit (hd rest)"
      and least: "\<And>p d r. cs = p @ lbl @ d # r \<Longrightarrow> is_digit d \<Longrightarrow> length pre \<le> length p"
      by blast
    have "length (c # pre) \<le> length p" if "c # cs = p @ lbl @ d # r" and "is_digit d" for p d r
    proof (cases p)
      case Nil
      with that(1) have s: "c # cs = lbl @ d # r" by simp
      then have "prefix lbl (c # cs)" by simp
      moreover from s that(2) have "takeWhile is_digit ?tl \<noteq> []" by simp
      ultimately show ?thesis using False by simp
    next
      case (Cons c' p')
      with that(1) have "cs = p' @ lbl @ d # r" by simp
      from least [OF this that(2)] Cons show ?thesis by simp
    qed
    with cs v stop show ?thesis
      by (intro exI [of _ "c # pre"] exI [of _ rest]) simp
  qed
qed

lemma str_includes_append: "str_includes (a @ b) b"
  by (simp add: str_includes_iff_sublist)

subsection \<open>Printing numbers\<close>

lemma nat_ToString_0: "nat_ToString 0 = ''0''"
  by (simp add: nat_ToString.simps)

lemma nat_ToString_1: "nat_ToString (Suc 0) = ''1''"
  by (simp add: nat_ToString.simps)

lemma nat_ToString_numeral:
  "nat_ToString (numeral k) =
     (if (numeral k :: nat) < 10 then [''0123456789'' ! numeral k]
      else nat_ToString (numeral k div 10) @ [''0123456789'' ! (numeral k mod 10)])"
  by (rule nat_ToString.simps)

lemmas nat_ToString_eval = nat_ToString_0 nat_ToString_1 nat_ToString_numeral

lemma toFixed_example: "toFixed eng (Finite 10.25) 1 = ''10.3''"
  by (simp add: toFixed_def Let_def nat_ToString_eval)

lemma toFixed_example_normal: "toFixed eng (Finite (41 / 4)) (Suc 0) = ''10.3''"
  using toFixed_example [of eng] by simp

subsection \<open>Operating system\<close>

text \<open>
  C4, as the spec states it, fails: an agent string that contains \<open>Android\<close> and also
  \<open>Win\<close> is classified as Windows, since that test comes first.
\<close>

theorem getOperatingSystem_android_with_win:
  "str_includes ''Mozilla/5.0 (Windows Phone 10.0; Android 6.0.1)'' ''Android'' \<and>
   getOperatingSystem ''Mozilla/5.0 (Windows Phone 10.0; Android 6.0.1)'' = ''Windows''"
  by (simp add: getOperatingSystem_def)

text \<open>
  C4, amended: for every agent string that contains \<open>Android\<close> and does not contain
  \<open>Win\<close>, \<open>getOperatingSystem\<close> returns the Android label, whatever else the string
  contains.
\<close>

theorem getOperatingSystem_android:
  "str_includes ua ''Android'' \<Longrightarrow> \<not> str_includes ua ''Win'' \<Longrightarrow>
   getOperatingSystem ua = ''Android''"
  by (simp add: getOperatingSystem_def)

theorem getOperatingSystem_android_witness:
  "str_includes ''Mozilla/5.0 (Linux; Android 10; K)'' ''Android'' \<and>
   \<not> str_includes ''Mozilla/5.0 (Linux; Android 10; K)'' ''Win'' \<and>
   getOperatingSystem ''Mozilla/5.0 (Linux; Android 10; K)'' = ''Android''"
  using getOperatingSystem_android [of "''Mozilla/5.0 (Linux; Android 10; K)''"] by simp

subsection \<open>Browser\<close>

text \<open>
  C5, as the spec states it, fails: an agent string that contains \<open>Chrome\<close>, \<open>Edg\<close>
  and \<open>Firefox\<close> is classified as Firefox, whose test comes before the one for Edge.
\<close>

theorem getBrowser_chrome_edg_firefox:
  "str_includes ''Chrome/1 Edg/1 Firefox/1'' ''Chrome'' \<and>
   str_includes ''Chrome/1 Edg/1 Firefox/1'' ''Edg'' \<and>
   getBrowser ''Chrome/1 Edg/1 Firefox/1'' = ''Firefox (v1)''"
  by (simp add: getBrowser_def or_empty_def is_digit_def)

lemma labelled_version:
  assumes "g = (if or_empty (match_digits_after lbl ua) \<noteq> []
                then name @ '' (v'' @ or_empty (match_digits_after lbl ua) @ '')''
                else name)"
  shows "(g = name \<and> (\<forall>p d r. ua = p @ lbl @ d # r \<longrightarrow> \<not> is_digit d)) \<or>
         (\<exists>pre v rest.
            g = name @ '' (v'' @ v @ '')'' \<and>
            ua = pre @ lbl @ v @ rest \<and> v \<noteq> [] \<and> list_all is_digit v \<and>
            (rest = [] \<or> \<not> is_digit (hd rest)) \<and>
            (\<forall>p d r. ua = p @ lbl @ d # r \<and> is_digit d \<longrightarrow> length pre \<le> length p))"
proof (cases "match_digits_after lbl ua")
  case None
  then have "g = name" using assms by (simp add: or_empty_def)
  moreover have "\<not> is_digit d" if "ua = p @ lbl @ d # r" for p d r
    using match_digits_after_None [OF None that] by blast
  ultimately show ?thesis by blast
next
  case (Some v)
  from match_digits_after_leftmost [OF this] obtain pre rest where
    *: "ua = pre @ lbl @ v @ rest" "v \<noteq> []" "list_all is_digit v"
       "rest = [] \<or> \<not> is_digit (hd rest)"
       "\<forall>p d r. ua = p @ lbl @ d # r \<and> is_digit d \<longrightarrow> length pre \<le> length p"
    by blast
  from Some *(2) assms have "g = name @ '' (v'' @ v @ '')''"
    by (simp add: or_empty_def)
  with * show ?thesis by blast
qed

text \<open>
  C5, amended: for every agent string that contains both \<open>Chrome\<close> and \<open>Edg\<close>,
  \<open>getBrowser\<close> never answers Chrome. When the string does not contain \<open>Firefox\<close> it
  answers Edge: bare when no \<open>Edg/\<close> in the string is followed by a digit, and otherwise
  with the whole run of digits that follows the leftmost \<open>Edg/\<close> followed by a digit. When
  the string contains \<open>Firefox\<close> it answers Firefox, in the same way with the digits
  after \<open>Firefox/\<close>.
\<close>

theorem getBrowser_chrome_edg:
  assumes "str_includes ua ''Chrome''" and "str_includes ua ''Edg''"
  shows "\<not> prefix ''Chrome'' (getBrowser ua) \<and>
         (let (name, lbl) =
                (if str_includes ua ''Firefox'' then (''Firefox'', ''Firefox/'')
                 else (''Edge'', ''Edg/''))
          in (getBrowser ua = name \<and>
              (\<forall>p d r. ua = p @ lbl @ d # r \<longrightarrow> \<not> is_digit d)) \<or>
             (\<exists>pre v rest.
                getBrowser ua = name @ '' (v'' @ v @ '')'' \<and>
                ua = pre @ lbl @ v @ rest \<and> v \<noteq> [] \<and> list_all is_digit v \<and>
                (rest = [] \<or> \<not> is_digit (hd rest)) \<and>
                (\<forall>p d r. ua = p @ lbl @ d # r \<and> is_digit d \<longrightarrow>
                   length pre \<le> length p)))"
proof (cases "str_includes ua ''Firefox''")
  case True
  with assms have g: "getBrowser ua =
      (if or_empty (match_digits_after ''Firefox/'' ua) \<noteq> []
       then ''Firefox'' @ '' (v'' @ or_empty (match_digits_after ''Firefox/'' ua) @ '')''
       else ''Firefox'')"
    by (simp add: getBrowser_def)
  have "\<not> prefix ''Chrome'' (getBrowser ua)"
    by (simp add: g)
  with labelled_version [OF g] True show ?thesis
    by simp
next
  case False
  with assms have g: "getBrowser ua =
      (if or_empty (match_digits_after ''Edg/'' ua) \<noteq> []
       then ''Edge'' @ '' (v'' @ or_empty (match_digits_after ''Edg/'' ua) @ '')''
       else ''Edge'')"
    by (simp add: getBrowser_def)
  have "\<not> prefix ''Chrome'' (getBrowser ua)"
    by (simp add: g)
  with labelled_version [OF g] False show ?thesis
    by simp
qed

theorem getBrowser_chrome_edg_witness:
  "str_includes ''Mozilla/5.0 Chrome/99.0.0.0 Safari/537.36 Edg/120.0.0.0'' ''Chrome'' \<and>
   str_includes ''Mozilla/5.0 Chrome/99.0.0.0 Safari/537.36 Edg/120.0.0.0'' ''Edg'' \<and>
   \<not> str_includes ''Mozilla/5.0 Chrome/99.0.0.0 Safari/537.36 Edg/120.0.0.0'' ''Firefox'' \<and>
   \<not> prefix ''Chrome''
       (getBrowser ''Mozilla/5.0 Chrome/99.0.0.0 Safari/537.36 Edg/120.0.0.0'') \<and>
   getBrowser ''Mozilla/5.0 Chrome/99.0.0.0 Safari/537.36 Edg/120.0.0.0'' =
     ''Edge'' @ '' (v'' @ ''120'' @ '')'' \<and>
   ''Mozilla/5.0 Chrome/99.0.0.0 Safari/537.36 Edg/120.0.0.0'' =
     ''Mozilla/5.0 Chrome/99.0.0.0 Safari/537.36 '' @ ''Edg/'' @ ''120'' @ ''.0.0.0'' \<and>
   list_all is_digit ''120'' \<and> \<not> is_digit (hd ''.0.0.0'') \<and>
   str_includes ''Chrome/5 Edg/5 Firefox/7'' ''Chrome'' \<and>
   str_includes ''Chrome/5 Edg/5 Firefox/7'' ''Edg'' \<and>
   str_includes ''Chrome/5 Edg/5 Firefox/7'' ''Firefox'' \<and>
   \<not> prefix ''Chrome'' (getBrowser ''Chrome/5 Edg/5 Firefox/7'') \<and>
   getBrowser ''Chrome/5 Edg/5 Firefox/7'' = ''Firefox'' @ '' (v'' @ ''7'' @ '')'' \<and>
   ''Chrome/5 Edg/5 Firefox/7'' = ''Chrome/5 Edg/5 '' @ ''Firefox/'' @ ''7'' @ [] \<and>
   list_all is_digit ''7''"
proof -
  have a: "str_includes ''Mozilla/5.0 Chrome/99.0.0.0 Safari/537.36 Edg/120.0.0.0'' ''Chrome''"
    and b: "str_includes ''Mozilla/5.0 Chrome/99.0.0.0 Safari/537.36 Edg/120.0.0.0'' ''Edg''"
    and c: "str_includes ''Chrome/5 Edg/5 Firefox/7'' ''Chrome''"
    and d: "str_includes ''Chrome/5 Edg/5 Firefox/7'' ''Edg''"
    by simp_all
  from getBrowser_chrome_edg [OF a b] have e:
    "\<not> prefix ''Chrome''
        (getBrowser ''Mozilla/5.0 Chrome/99.0.0.0 Safari/537.36 Edg/120.0.0.0'')"
    by (rule conjunct1)
  from getBrowser_chrome_edg [OF c d] have f:
    "\<not> prefix ''Chrome'' (getBrowser ''Chrome/5 Edg/5 Firefox/7'')"
    by (rule conjunct1)
  show ?thesis
    using e f by (simp add: getBrowser_def or_empty_def is_digit_def)
qed

subsection \<open>The profile\<close>

lemma toUpperCase_ascii: "list_all is_ascii s \<Longrightarrow> toUpperCase eng s = map upper_char s"
  by (simp add: toUpperCase_def)

lemma toUpperCase_4g: "toUpperCase eng ''4g'' = ''4G''"
  by (simp add: toUpperCase_def is_ascii_def upper_char_def)

lemma collectClientData_returns:
  "(\<exists>profile. collectClientData eng env clientName = Inr profile) \<longleftrightarrow>
   (\<exists>t. toLocaleTimeString eng env (language (navigator env)) = Inr t)"
  by (auto simp: collectClientData_def Let_def split: sum.splits)

lemma ill_formed_language_raises:
  assumes "language (navigator env) = Some t" and "ill_formed_tag t"
  shows "collectClientData eng env clientName = Inl (RangeError (bad_locale_message eng t))"
  using assms by (simp add: collectClientData_def Let_def toLocaleTimeString_def)

lemma empty_language_raises:
  "language (navigator env) = Some [] \<Longrightarrow>
   collectClientData eng env clientName = Inl (RangeError (bad_locale_message eng []))"
  by (rule ill_formed_language_raises) (simp_all add: ill_formed_tag_def)

lemma example_rendering:
  "toLocaleTimeString example_engine (browser_with_connection c) (Some ''en-US'') =
     Inr ''Mon, Jan 1, 2024, 12:00 AM''"
  "toLocaleTimeString example_engine example_browser (Some ''en-US'') =
     Inr ''Mon, Jan 1, 2024, 12:00 AM''"
  by (simp_all add: toLocaleTimeString_def ill_formed_tag_def browser_with_connection_def
        example_browser_def)

lemma example_agent:
  "getOperatingSystem
     ''Mozilla/5.0 (X11; Linux x86_64; rv:120.0) Gecko/20100101 Firefox/120.0'' = ''Linux''"
  "getBrowser
     ''Mozilla/5.0 (X11; Linux x86_64; rv:120.0) Gecko/20100101 Firefox/120.0'' =
     ''Firefox (v120)''"
  by (simp_all add: getOperatingSystem_def getBrowser_def or_empty_def is_digit_def)

lemma example_agent_desktop:
  "test_any_ci [''Mobi'', ''Android'', ''iPhone'', ''iPad'', ''Windows Phone'']
     ''Mozilla/5.0 (X11; Linux x86_64; rv:120.0) Gecko/20100101 Firefox/120.0'' = False"
  by code_simp

lemma profile_without_connection:
  "collectClientData example_engine example_browser None = Inr (example_profile ''N/A (N/A)'')"
  using example_rendering(2)
  by (simp add: collectClientData_def Let_def example_browser_def example_profile_def
        obj_or_def example_agent example_agent_desktop int_ToString_def nat_ToString_eval js_or_def str_val_def)

lemma profile_with_connection:
  "collectClientData example_engine (browser_with_connection c) None =
     Inr (example_profile
       ((case effectiveType c of
           None \<Rightarrow> ''N/A''
         | Some t \<Rightarrow> if t = [] then ''N/A'' else toUpperCase example_engine t) @ '' ('' @
        (case downlink c of
           None \<Rightarrow> ''N/A''
         | Some d \<Rightarrow> if d = NaN \<or> d = Finite 0 then ''N/A''
                     else toFixed example_engine d 1 @ '' Mbps'') @ '')''))"
  using example_rendering(1) [of c]
  by (simp add: collectClientData_def Let_def example_browser_def example_profile_def
        browser_with_connection_def obj_or_def example_agent example_agent_desktop int_ToString_def nat_ToString_eval
        js_or_def str_val_def split: option.splits)

subsection \<open>The network descriptor\<close>

text \<open>
  C9: whenever the profiler returns a profile, with a connection object of effective type
  \<open>4g\<close> and downlink \<open>10.25\<close> the network descriptor of the profile is
  \<open>4G (10.3 Mbps)\<close>, and with no connection object it is \<open>N/A (N/A)\<close>. (The profiler
  returns unless rendering the local time raises, lemma \<open>collectClientData_returns\<close>.)
\<close>

theorem network_descriptor_examples:
  assumes "collectClientData eng env clientName = Inr profile"
  shows
  "(obj_or (obj_or (nav_connection (navigator env)) (mozConnection (navigator env)))
           (webkitConnection (navigator env))
      = Some \<lparr>effectiveType = Some ''4g'', downlink = Some (Finite 10.25)\<rparr> \<longrightarrow>
    prop_of profile ''connectionSpeed'' = JStr ''4G (10.3 Mbps)'') \<and>
   (obj_or (obj_or (nav_connection (navigator env)) (mozConnection (navigator env)))
           (webkitConnection (navigator env)) = None \<longrightarrow>
    prop_of profile ''connectionSpeed'' = JStr ''N/A (N/A)'')"
  using assms
  by (auto simp: collectClientData_def Let_def toFixed_example_normal toUpperCase_4g
        split: sum.splits)

theorem network_descriptor_examples_witness:
  "collectClientData example_engine
     (browser_with_connection \<lparr>effectiveType = Some ''4g'', downlink = Some (Finite 10.25)\<rparr>)
     None = Inr (example_profile ''4G (10.3 Mbps)'') \<and>
   obj_or (obj_or (nav_connection (navigator (browser_with_connection
              \<lparr>effectiveType = Some ''4g'', downlink = Some (Finite 10.25)\<rparr>)))
            (mozConnection (navigator (browser_with_connection
              \<lparr>effectiveType = Some ''4g'', downlink = Some (Finite 10.25)\<rparr>))))
          (webkitConnection (navigator (browser_with_connection
              \<lparr>effectiveType = Some ''4g'', downlink = Some (Finite 10.25)\<rparr>)))
     = Some \<lparr>effectiveType = Some ''4g'', downlink = Some (Finite 10.25)\<rparr> \<and>
   prop_of (example_profile ''4G (10.3 Mbps)'') ''connectionSpeed'' = JStr ''4G (10.3 Mbps)'' \<and>
   collectClientData example_engine example_browser None =
     Inr (example_profile ''N/A (N/A)'') \<and>
   obj_or (obj_or (nav_connection (navigator example_browser))
                  (mozConnection (navigator example_browser)))
          (webkitConnection (navigator example_browser)) = None \<and>
   prop_of (example_profile ''N/A (N/A)'') ''connectionSpeed'' = JStr ''N/A (N/A)''"
proof -
  have a: "collectClientData example_engine
     (browser_with_connection \<lparr>effectiveType = Some ''4g'', downlink = Some (Finite 10.25)\<rparr>)
     None = Inr (example_profile ''4G (10.3 Mbps)'')"
    by (simp add: profile_with_connection toUpperCase_4g toFixed_example_normal)
  have b: "collectClientData example_engine example_browser None =
     Inr (example_profile ''N/A (N/A)'')"
    by (rule profile_without_connection)
  show ?thesis
    using a b network_descriptor_examples [OF a] network_descriptor_examples [OF b]
    by (simp add: browser_with_connection_def example_browser_def obj_or_def)
qed

text \<open>
  C10: whenever the profiler returns a profile, for the connection object it picks a
  downlink of \<open>0\<close> gives the \<open>N/A\<close> sentinel for the throughput part, and an empty
  effective type gives it for the tier part, each exactly as an absent signal does; the
  other part is rendered as usual.
\<close>

theorem falsy_signal_is_sentinel:
  assumes "collectClientData eng env clientName = Inr profile"
      and "obj_or (obj_or (nav_connection (navigator env)) (mozConnection (navigator env)))
                  (webkitConnection (navigator env)) = Some c"
  shows "(downlink c = Some (Finite 0) \<or> downlink c = None \<longrightarrow>
            prop_of profile ''connectionSpeed'' =
              JStr ((case effectiveType c of
                       None \<Rightarrow> ''N/A''
                     | Some t \<Rightarrow> if t = [] then ''N/A'' else toUpperCase eng t) @ '' (N/A)'')) \<and>
         (effectiveType c = Some [] \<or> effectiveType c = None \<longrightarrow>
            prop_of profile ''connectionSpeed'' =
              JStr (''N/A ('' @
                    (case downlink c of
                       None \<Rightarrow> ''N/A''
                     | Some d \<Rightarrow> if d = NaN \<or> d = Finite 0 then ''N/A''
                                 else toFixed eng d 1 @ '' Mbps'') @ '')''))"
  using assms
  by (auto simp: collectClientData_def Let_def split: option.splits sum.splits)

theorem falsy_signal_is_sentinel_witness:
  "collectClientData example_engine
     (browser_with_connection \<lparr>effectiveType = Some ''4g'', downlink = Some (Finite 0)\<rparr>)
     None = Inr (example_profile ''4G (N/A)'') \<and>
   obj_or (obj_or (nav_connection (navigator (browser_with_connection
              \<lparr>effectiveType = Some ''4g'', downlink = Some (Finite 0)\<rparr>)))
            (mozConnection (navigator (browser_with_connection
              \<lparr>effectiveType = Some ''4g'', downlink = Some (Finite 0)\<rparr>))))
          (webkitConnection (navigator (browser_with_connection
              \<lparr>effectiveType = Some ''4g'', downlink = Some (Finite 0)\<rparr>)))
     = Some \<lparr>effectiveType = Some ''4g'', downlink = Some (Finite 0)\<rparr> \<and>
   prop_of (example_profile ''4G (N/A)'') ''connectionSpeed'' = JStr ''4G (N/A)'' \<and>
   collectClientData example_engine
     (browser_with_connection \<lparr>effectiveType = Some [], downlink = Some (Finite 10.25)\<rparr>)
     None = Inr (example_profile ''N/A (10.3 Mbps)'') \<and>
   obj_or (obj_or (nav_connection (navigator (browser_with_connection
              \<lparr>effectiveType = Some [], downlink = Some (Finite 10.25)\<rparr>)))
            (mozConnection (navigator (browser_with_connection
              \<lparr>effectiveType = Some [], downlink = Some (Finite 10.25)\<rparr>))))
          (webkitConnection (navigator (browser_with_connection
              \<lparr>effectiveType = Some [], downlink = Some (Finite 10.25)\<rparr>)))
     = Some \<lparr>effectiveType = Some [], downlink = Some (Finite 10.25)\<rparr> \<and>
   prop_of (example_profile ''N/A (10.3 Mbps)'') ''connectionSpeed'' =
     JStr ''N/A (10.3 Mbps)''"
proof -
  let ?c1 = "\<lparr>effectiveType = Some ''4g'', downlink = Some (Finite 0)\<rparr>"
  let ?c2 = "\<lparr>effectiveType = Some [], downlink = Some (Finite 10.25)\<rparr>"
  have a: "collectClientData example_engine (browser_with_connection ?c1) None =
             Inr (example_profile ''4G (N/A)'')"
    by (simp add: profile_with_connection toUpperCase_4g)
  have b: "collectClientData example_engine (browser_with_connection ?c2) None =
             Inr (example_profile ''N/A (10.3 Mbps)'')"
    by (simp add: profile_with_connection toFixed_example_normal)
  have c: "obj_or (obj_or (nav_connection (navigator (browser_with_connection k)))
                          (mozConnection (navigator (browser_with_connection k))))
                  (webkitConnection (navigator (browser_with_connection k))) = Some k" for k
    by (simp add: browser_with_connection_def example_browser_def obj_or_def)
  show ?thesis
    using a b c [of ?c1] c [of ?c2]
      falsy_signal_is_sentinel [OF a c [of ?c1]] falsy_signal_is_sentinel [OF b c [of ?c2]]
    by (simp add: toUpperCase_4g toFixed_example_normal)
qed

subsection \<open>Sequencing\<close>

lemma bind_Inl: "bind (Inl e, t) f = (Inl e, t)"
  by (simp add: bind_def)

lemma bind_Inr: "bind (Inr x, t) f = (fst (f x), t @ snd (f x))"
  by (simp add: bind_def split: prod.splits)

lemma try_catch_Inl: "try_catch (Inl e, t) h = (fst (h e), t @ snd (h e))"
  by (simp add: try_catch_def split: prod.splits)

lemma try_catch_Inr: "try_catch (Inr x, t) h = (Inr x, t)"
  by (simp add: try_catch_def)

lemmas io_simps = bind_Inl bind_Inr try_catch_Inl try_catch_Inr ret_def throw_def lift_def
  console_log_def console_error_def fetch_def

lemma bind_pair:
  "bind m f =
     (case fst m of
        Inl e \<Rightarrow> (Inl e, snd m)
      | Inr x \<Rightarrow> (fst (f x), snd m @ snd (f x)))"
  by (cases m) (simp add: bind_def split: sum.splits prod.splits)

lemma try_catch_pair:
  "try_catch m h =
     (case fst m of
        Inl e \<Rightarrow> (fst (h e), snd m @ snd (h e))
      | Inr x \<Rightarrow> (Inr x, snd m))"
  by (cases m) (simp add: try_catch_def split: sum.splits prod.splits)

subsection \<open>The example networks\<close>

lemma geo_network_geo_request:
  "geo_network b n geo_request = Inr \<lparr>status = 200, json_body = Inr b\<rparr>"
  by (simp add: geo_network_def geo_request_def)

lemma geo_network_log_request:
  "geo_network b n (log_request d) =
     Inr \<lparr>status = n, json_body = Inl (SyntaxError ''Unexpected end of JSON input'')\<rparr>"
  by (simp add: geo_network_def log_request_def LOGGING_ENDPOINT_def ALTERNATE_IP_API_URL_def)

subsection \<open>The transmitter\<close>

lemma sendDataToLog_sends: "list_ex sends_to_log (snd (sendDataToLog net d))"
  unfolding sendDataToLog_def
  by (auto simp: bind_pair try_catch_pair ret_def console_log_def console_error_def fetch_def
        sends_to_log_def log_request_def split: sum.splits)

lemma sendDataToLog_result:
  "fst (sendDataToLog net data) =
     Inr (case net (log_request data) of Inl e \<Rightarrow> False | Inr response \<Rightarrow> ok response)"
  unfolding sendDataToLog_def
  by (simp add: io_simps split: sum.splits)

lemma sendDataToLog_request: "Fetch (log_request d) \<in> set (snd (sendDataToLog net d))"
  unfolding sendDataToLog_def
  by (auto simp: bind_pair try_catch_pair ret_def console_log_def console_error_def fetch_def
        split: sum.splits)

lemma sendDataToLog_status_500: "fst (sendDataToLog (geo_network b 500) d) = Inr False"
  by (simp add: sendDataToLog_result geo_network_log_request ok_def)

lemma sendDataToLog_rejected: "fst (sendDataToLog failing_network d) = Inr False"
  by (simp add: sendDataToLog_result failing_network_def)

text \<open>
  C8: whatever the POST settles to, \<open>sendDataToLog\<close> returns (it does not throw), and
  what it returns is \<open>True\<close> exactly when there is a response and its status is from
  200 to 299; a rejected request and any other status, 500 among them, give \<open>False\<close>.
\<close>

theorem sendDataToLog_returns_ok:
  "fst (sendDataToLog net data) =
     Inr (case net (log_request data) of
            Inl e \<Rightarrow> False
          | Inr response \<Rightarrow> 200 \<le> status response \<and> status response \<le> 299)"
  unfolding sendDataToLog_def
  by (simp add: io_simps ok_def split: sum.splits)

subsection \<open>The resolver\<close>

lemma fetchAlternateGeoData_events:
  "\<forall>ev \<in> set (snd (fetchAlternateGeoData eng net)). \<not> sends_to_log ev"
  unfolding fetchAlternateGeoData_def
  by (auto simp: bind_pair try_catch_pair ret_def throw_def lift_def console_error_def fetch_def
        get_prop_def sends_to_log_def geo_request_def ALTERNATE_IP_API_URL_def
        LOGGING_ENDPOINT_def split: sum.splits if_splits)

lemma fetchAlternateGeoData_result:
  "fst (fetchAlternateGeoData eng net) =
     (case net geo_request of
        Inl e \<Rightarrow>
          Inl (Error (''Failed to retrieve alternate geolocation data: '' @ message e))
      | Inr response \<Rightarrow>
          if \<not> ok response
          then Inl (Error (''Failed to retrieve alternate geolocation data: '' @
                 ''HTTP error from ip-api.com! Status: '' @ nat_ToString (status response)))
          else
            (case json_body response of
               Inl e \<Rightarrow>
                 Inl (Error (''Failed to retrieve alternate geolocation data: '' @ message e))
             | Inr geoData \<Rightarrow>
                 if geoData = JNull \<or> geoData = JUndefined
                 then Inl (Error (''Failed to retrieve alternate geolocation data: '' @
                        null_read_message eng ''status''))
                 else if prop_of geoData ''status'' = JStr ''success''
                 then
                   (case ToString eng (prop_of geoData ''lat'') of
                      Inl e \<Rightarrow>
                        Inl (Error (''Failed to retrieve alternate geolocation data: '' @
                               message e))
                    | Inr lat \<Rightarrow>
                        (case ToString eng (prop_of geoData ''lon'') of
                           Inl e \<Rightarrow>
                             Inl (Error (''Failed to retrieve alternate geolocation data: '' @
                                    message e))
                         | Inr lon \<Rightarrow>
                             Inr (JObj
                               [(''ip'', prop_of geoData ''query''),
                                (''org'', prop_of geoData ''isp''),
                                (''asn'', prop_of geoData ''as''),
                                (''countryCode'', prop_of geoData ''countryCode''),
                                (''region'', prop_of geoData ''regionName''),
                                (''city'', prop_of geoData ''city''),
                                (''zip'', prop_of geoData ''zip''),
                                (''coords'', JStr (lat @ '','' @ lon)),
                                (''timezone'', prop_of geoData ''timezone''),
                                (''apiSource'', JStr ''ip-api.com'')])))
                 else
                   Inl (Error (''Failed to retrieve alternate geolocation data: '' @
                     (case ToString eng (js_or (prop_of geoData ''message'')
                                               (JStr ''Alternate API returned failure status.'')) of
                        Inl e \<Rightarrow> message e
                      | Inr msg \<Rightarrow> msg)))))"
  unfolding fetchAlternateGeoData_def
  by (simp add: io_simps get_prop_def split: sum.splits)

lemma null_body_raises:
  assumes "net geo_request = Inr response" and "ok response"
      and "json_body response = Inr JNull"
  shows "fst (fetchAlternateGeoData eng net) =
           Inl (Error (''Failed to retrieve alternate geolocation data: '' @
                  null_read_message eng ''status''))"
  using assms by (simp add: fetchAlternateGeoData_result)

lemma not_ok_raises:
  assumes "net geo_request = Inr response" and "\<not> ok response"
  shows "fst (fetchAlternateGeoData eng net) =
           Inl (Error (''Failed to retrieve alternate geolocation data: '' @
                  ''HTTP error from ip-api.com! Status: '' @ nat_ToString (status response)))"
  using assms by (simp add: fetchAlternateGeoData_result)

text \<open>
  C6: a response with an OK status whose decoded body is the ACME example is mapped to
  the record with \<open>coords\<close> \<open>1,2\<close> and \<open>apiSource\<close> \<open>ip-api.com\<close>, the other fields
  renamed: \<open>ip\<close> from \<open>query\<close>, \<open>org\<close> from \<open>isp\<close>, \<open>asn\<close> from \<open>as\<close>, \<open>region\<close>
  from \<open>regionName\<close>.
\<close>

theorem acme_response_mapped:
  assumes "net geo_request = Inr response" and "ok response"
      and "json_body response = Inr acme_body"
  shows "fst (fetchAlternateGeoData eng net) =
           Inr (JObj [(''ip'', JStr ''1.2.3.4''), (''org'', JStr ''ACME''),
                      (''asn'', JStr ''AS1 ACME''), (''countryCode'', JStr ''US''),
                      (''region'', JStr ''CA''), (''city'', JStr ''X''),
                      (''zip'', JStr ''90000''), (''coords'', JStr ''1,2''),
                      (''timezone'', JStr ''UTC''), (''apiSource'', JStr ''ip-api.com'')])"
  using assms
  by (simp add: fetchAlternateGeoData_result acme_body_def Number_toString_def
        int_ToString_def nat_ToString_eval)

theorem acme_response_mapped_witness:
  "geo_network acme_body 200 geo_request = Inr \<lparr>status = 200, json_body = Inr acme_body\<rparr> \<and>
   ok \<lparr>status = 200, json_body = Inr acme_body\<rparr> \<and>
   json_body \<lparr>status = 200, json_body = Inr acme_body\<rparr> = Inr acme_body \<and>
   fst (fetchAlternateGeoData example_engine (geo_network acme_body 200)) =
     Inr (JObj [(''ip'', JStr ''1.2.3.4''), (''org'', JStr ''ACME''),
                (''asn'', JStr ''AS1 ACME''), (''countryCode'', JStr ''US''),
                (''region'', JStr ''CA''), (''city'', JStr ''X''),
                (''zip'', JStr ''90000''), (''coords'', JStr ''1,2''),
                (''timezone'', JStr ''UTC''), (''apiSource'', JStr ''ip-api.com'')])"
  using
    acme_response_mapped [where net = "geo_network acme_body 200" and eng = example_engine
      and response = "\<lparr>status = 200, json_body = Inr acme_body\<rparr>"]
  by (simp add: geo_network_geo_request ok_def)

text \<open>
  C7: when the status is OK and the decoded body (an object, or any value other than
  \<^verbatim>\<open>null\<close>) does not carry the status \<open>success\<close>, the resolver throws; the message of
  the error is the fixed prefix followed by the body's message, or by the fallback text
  when that message is absent (or falsy). So it contains the service's message when that
  is a string, and the fallback text when there is none.
\<close>

theorem failure_body_raises:
  assumes "net geo_request = Inr response" and "ok response"
      and "json_body response = Inr geoData"
      and "geoData \<noteq> JNull" and "geoData \<noteq> JUndefined"
      and "prop_of geoData ''status'' \<noteq> JStr ''success''"
  shows "\<exists>msg. fst (fetchAlternateGeoData eng net) = Inl (Error msg) \<and>
           msg = ''Failed to retrieve alternate geolocation data: '' @
              (case ToString eng (js_or (prop_of geoData ''message'')
                                        (JStr ''Alternate API returned failure status.'')) of
                 Inl e \<Rightarrow> message e
               | Inr m \<Rightarrow> m) \<and>
           (\<forall>m. prop_of geoData ''message'' = JStr m \<longrightarrow> str_includes msg m) \<and>
           (prop_of geoData ''message'' = JUndefined \<longrightarrow>
              str_includes msg ''Alternate API returned failure status.'')"
proof -
  let ?pre = "''Failed to retrieve alternate geolocation data: ''"
  let ?m = "case ToString eng (js_or (prop_of geoData ''message'')
                                     (JStr ''Alternate API returned failure status.'')) of
              Inl e \<Rightarrow> message e
            | Inr m \<Rightarrow> m"
  have res: "fst (fetchAlternateGeoData eng net) = Inl (Error (?pre @ ?m))"
    using assms by (simp add: fetchAlternateGeoData_result)
  have present: "str_includes (?pre @ ?m) m" if "prop_of geoData ''message'' = JStr m" for m
  proof (cases "m = []")
    case True
    then show ?thesis by (simp add: str_includes_iff_sublist)
  next
    case False
    with that have "?m = m" by (simp add: js_or_def)
    then show ?thesis using str_includes_append [of ?pre m] by simp
  qed
  have absent: "str_includes (?pre @ ?m) ''Alternate API returned failure status.''"
    if "prop_of geoData ''message'' = JUndefined"
  proof -
    from that have "?m = ''Alternate API returned failure status.''" by (simp add: js_or_def)
    then show ?thesis
      using str_includes_append [of ?pre "''Alternate API returned failure status.''"] by simp
  qed
  show ?thesis
    using res present absent by (intro exI [of _ "?pre @ ?m"]) simp
qed

theorem failure_body_raises_witness:
  "geo_network invalid_query_body 200 geo_request =
     Inr \<lparr>status = 200, json_body = Inr invalid_query_body\<rparr> \<and>
   ok \<lparr>status = 200, json_body = Inr invalid_query_body\<rparr> \<and>
   invalid_query_body \<noteq> JNull \<and> invalid_query_body \<noteq> JUndefined \<and>
   prop_of invalid_query_body ''status'' \<noteq> JStr ''success'' \<and>
   prop_of invalid_query_body ''message'' = JStr ''invalid query'' \<and>
   fst (fetchAlternateGeoData example_engine (geo_network invalid_query_body 200)) =
     Inl (Error ''Failed to retrieve alternate geolocation data: invalid query'') \<and>
   str_includes ''Failed to retrieve alternate geolocation data: invalid query''
     ''invalid query'' \<and>
   geo_network bare_fail_body 200 geo_request =
     Inr \<lparr>status = 200, json_body = Inr bare_fail_body\<rparr> \<and>
   bare_fail_body \<noteq> JNull \<and> bare_fail_body \<noteq> JUndefined \<and>
   prop_of bare_fail_body ''status'' \<noteq> JStr ''success'' \<and>
   prop_of bare_fail_body ''message'' = JUndefined \<and>
   fst (fetchAlternateGeoData example_engine (geo_network bare_fail_body 200)) =
     Inl (Error
       ''Failed to retrieve alternate geolocation data: Alternate API returned failure status.'') \<and>
   str_includes
     ''Failed to retrieve alternate geolocation data: Alternate API returned failure status.''
     ''Alternate API returned failure status.''"
  using
    failure_body_raises [where net = "geo_network invalid_query_body 200"
      and response = "\<lparr>status = 200, json_body = Inr invalid_query_body\<rparr>"
      and geoData = invalid_query_body and eng = example_engine]
    failure_body_raises [where net = "geo_network bare_fail_body 200"
      and response = "\<lparr>status = 200, json_body = Inr bare_fail_body\<rparr>"
      and geoData = bare_fail_body and eng = example_engine]
  by (simp add: geo_network_geo_request ok_def invalid_query_body_def bare_fail_body_def
        js_or_def)

lemma fetch_acme:
  "fst (fetchAlternateGeoData example_engine (geo_network acme_body n)) = Inr acme_record"
  by (simp add: fetchAlternateGeoData_result geo_network_geo_request ok_def acme_body_def
        acme_record_def Number_toString_def int_ToString_def nat_ToString_eval)

subsection \<open>Records and their merge\<close>

lemma update_fresh: "k \<notin> fst ` set a \<Longrightarrow> AList.update k v a = a @ [(k, v)]"
  by (induction a) auto

lemma foldl_update_disjoint:
  "distinct (map fst b) \<Longrightarrow> fst ` set a \<inter> fst ` set b = {} \<Longrightarrow>
   foldl (\<lambda>acc (k, v). AList.update k v acc) a b = a @ b"
proof (induction b arbitrary: a)
  case Nil
  then show ?case by simp
next
  case (Cons p b)
  obtain k v where p: "p = (k, v)" by (cases p)
  from Cons.prems p have fresh: "k \<notin> fst ` set a" and d: "distinct (map fst b)"
    and k: "k \<notin> fst ` set b" and disj: "fst ` set a \<inter> fst ` set b = {}"
    by auto
  from k disj have "fst ` set (a @ [(k, v)]) \<inter> fst ` set b = {}" by auto
  from Cons.IH [OF d this] fresh p show ?case
    by (simp add: update_fresh)
qed

lemma spread_disjoint:
  "distinct (map fst b) \<Longrightarrow> fst ` set a \<inter> fst ` set b = {} \<Longrightarrow>
   spread (JObj a) (JObj b) = JObj (a @ b)"
  by (simp add: spread_def foldl_update_disjoint)

lemma prop_of_append:
  assumes "fst ` set a \<inter> fst ` set b = {}"
  shows "prop_of (JObj (a @ b)) k =
           (if k \<in> set (map fst b) then prop_of (JObj b) k else prop_of (JObj a) k)"
proof (cases "k \<in> fst ` set b")
  case True
  with assms have "k \<notin> fst ` set a" by auto
  then have "map_of a k = None" by (simp add: map_of_eq_None_iff)
  with True show ?thesis by (simp add: map_add_def)
next
  case False
  then have "map_of b k = None" by (simp add: map_of_eq_None_iff)
  with False show ?thesis by (simp add: map_add_def split: option.splits)
qed

lemma collectClientData_Inr:
  assumes "collectClientData eng env clientName = Inr clientData"
  shows "\<exists>v1 v2 v3 v4 v5 v6 v7 v8 v9 v10.
           clientData =
             JObj [(''name'', JStr v1), (''logTimestamp'', JStr v2), (''os'', JStr v3),
                   (''browser'', JStr v4), (''resolution'', JStr v5),
                   (''deviceType'', JStr v6), (''connectionSpeed'', JStr v7),
                   (''browserLanguage'', JStr v8), (''localTimeFormatted'', JStr v9),
                   (''userAgent'', JStr v10)]"
  using assms
  by (auto simp: collectClientData_def Let_def js_or_def str_val_def
        split: sum.splits option.splits)

lemma fetchAlternateGeoData_Inr:
  assumes "fst (fetchAlternateGeoData eng net) = Inr geoData"
  shows "\<exists>response body lat lon.
           net geo_request = Inr response \<and> json_body response = Inr body \<and>
           ToString eng (prop_of body ''lat'') = Inr lat \<and>
           ToString eng (prop_of body ''lon'') = Inr lon \<and>
           geoData =
             JObj [(''ip'', prop_of body ''query''),
                   (''org'', prop_of body ''isp''),
                   (''asn'', prop_of body ''as''),
                   (''countryCode'', prop_of body ''countryCode''),
                   (''region'', prop_of body ''regionName''),
                   (''city'', prop_of body ''city''),
                   (''zip'', prop_of body ''zip''),
                   (''coords'', JStr (lat @ '','' @ lon)),
                   (''timezone'', prop_of body ''timezone''),
                   (''apiSource'', JStr ''ip-api.com'')]"
  using assms
  by (auto simp: fetchAlternateGeoData_result split: sum.splits if_splits)

lemma profile_keys:
  assumes "collectClientData eng env clientName = Inr clientData"
  shows "map fst (own_props clientData) =
           [''name'', ''logTimestamp'', ''os'', ''browser'', ''resolution'', ''deviceType'',
            ''connectionSpeed'', ''browserLanguage'', ''localTimeFormatted'', ''userAgent'']"
  using collectClientData_Inr [OF assms] by auto

lemma geo_keys:
  assumes "fst (fetchAlternateGeoData eng net) = Inr geoData"
  shows "map fst (own_props geoData) =
           [''ip'', ''org'', ''asn'', ''countryCode'', ''region'', ''city'', ''zip'',
            ''coords'', ''timezone'', ''apiSource'']"
  using fetchAlternateGeoData_Inr [OF assms] by auto

lemma is_object:
  "map fst (own_props v) = k # ks \<Longrightarrow> v = JObj (own_props v)"
  by (cases v) simp_all

lemma profile_geo_disjoint:
  assumes "collectClientData eng env clientName = Inr clientData"
      and "fst (fetchAlternateGeoData eng net) = Inr geoData"
  shows "fst ` set (own_props clientData) \<inter> fst ` set (own_props geoData) = {}"
proof -
  have "set (map fst (own_props clientData)) \<inter> set (map fst (own_props geoData)) = {}"
    unfolding profile_keys [OF assms(1)] geo_keys [OF assms(2)] by simp
  then show ?thesis by simp
qed

lemma spread_profile_geo:
  assumes "collectClientData eng env clientName = Inr clientData"
      and "fst (fetchAlternateGeoData eng net) = Inr geoData"
  shows "spread clientData geoData = JObj (own_props clientData @ own_props geoData)"
proof -
  have c: "clientData = JObj (own_props clientData)"
    using profile_keys [OF assms(1)] by (rule is_object)
  have g: "geoData = JObj (own_props geoData)"
    using geo_keys [OF assms(2)] by (rule is_object)
  have d: "distinct (map fst (own_props geoData))"
    unfolding geo_keys [OF assms(2)] by simp
  from spread_disjoint [OF d profile_geo_disjoint [OF assms]] c g show ?thesis
    by metis
qed

subsection \<open>The orchestrator\<close>

lemma run_profiler_failure:
  assumes "collectClientData eng env clientName = Inl e"
  shows "runAlternateDataTransfer eng env net clientName =
     (Inr JNull,
      [Console_log ''Starting data collection and transfer using Alternate API structure...'',
       Console_error (''Data transfer process failed: '' @ message e) None])"
  unfolding runAlternateDataTransfer_def
  using assms by (simp add: io_simps)

lemma run_after_failure:
  assumes "collectClientData eng env clientName = Inr clientData"
      and "fst (fetchAlternateGeoData eng net) = Inl e"
  shows "runAlternateDataTransfer eng env net clientName =
     (Inr JNull,
      Console_log ''Starting data collection and transfer using Alternate API structure...'' #
      snd (fetchAlternateGeoData eng net) @
      [Console_error (''Data transfer process failed: '' @ message e) None])"
  unfolding runAlternateDataTransfer_def
  using assms
  by (simp add: bind_pair try_catch_pair ret_def lift_def console_log_def console_error_def)

lemma run_after_resolver:
  assumes "collectClientData eng env clientName = Inr clientData"
      and "fst (fetchAlternateGeoData eng net) = Inr geoData"
  shows "runAlternateDataTransfer eng env net clientName =
     (Inr (spread clientData geoData),
      Console_log ''Starting data collection and transfer using Alternate API structure...'' #
      snd (fetchAlternateGeoData eng net) @
      snd (sendDataToLog net (spread clientData geoData)) @
      [Console_log
         (if fst (sendDataToLog net (spread clientData geoData)) = Inr True
          then ''Full payload successfully transferred to logging server.''
          else ''Data transfer failed.'')])"
  unfolding runAlternateDataTransfer_def
  using assms
  by (simp add: bind_pair try_catch_pair ret_def lift_def console_log_def console_error_def
        sendDataToLog_result)

lemma runAlternateDataTransfer_returns:
  "\<exists>v. fst (runAlternateDataTransfer eng env net clientName) = Inr v"
proof (cases "collectClientData eng env clientName")
  case (Inl e)
  then show ?thesis by (simp add: run_profiler_failure)
next
  case profile: (Inr clientData)
  show ?thesis
  proof (cases "fst (fetchAlternateGeoData eng net)")
    case (Inl e)
    with profile show ?thesis by (simp add: run_after_failure)
  next
    case (Inr geoData)
    with profile show ?thesis by (simp add: run_after_resolver)
  qed
qed

text \<open>
  A browser that reports the empty string as its language: rendering the local time
  raises, so the run returns \<^verbatim>\<open>null\<close> without any request.
\<close>

lemma empty_language_aborts:
  "runAlternateDataTransfer example_engine (browser_with_language (Some [])) net clientName =
     (Inr JNull,
      [Console_log ''Starting data collection and transfer using Alternate API structure...'',
       Console_error ''Data transfer process failed: Incorrect locale information provided''
         None])"
proof -
  have "language (navigator (browser_with_language (Some []))) = Some []"
    by (simp add: browser_with_language_def)
  from empty_language_raises [OF this, of example_engine clientName] show ?thesis
    by (simp add: run_profiler_failure example_engine_def)
qed

text \<open>
  C2: when the resolver throws, the run returns \<^verbatim>\<open>null\<close> and no request goes to the
  logging endpoint: the transmitter is not called.
\<close>

theorem resolver_failure_aborts:
  assumes "fst (fetchAlternateGeoData eng net) = Inl e"
  shows "fst (runAlternateDataTransfer eng env net clientName) = Inr JNull \<and>
         \<not> list_ex sends_to_log (snd (runAlternateDataTransfer eng env net clientName))"
proof (cases "collectClientData eng env clientName")
  case (Inl e')
  then show ?thesis
    by (simp add: run_profiler_failure sends_to_log_def)
next
  case (Inr clientData)
  from run_after_failure [OF this assms] fetchAlternateGeoData_events [of eng net]
  show ?thesis
    by (simp add: list_ex_iff sends_to_log_def)
qed

theorem resolver_failure_aborts_witness:
  "fst (fetchAlternateGeoData example_engine failing_network) =
     Inl (Error ''Failed to retrieve alternate geolocation data: Failed to fetch'') \<and>
   fst (runAlternateDataTransfer example_engine example_browser failing_network None) =
     Inr JNull \<and>
   \<not> list_ex sends_to_log
        (snd (runAlternateDataTransfer example_engine example_browser failing_network None))"
proof -
  have h: "fst (fetchAlternateGeoData example_engine failing_network) =
     Inl (Error ''Failed to retrieve alternate geolocation data: Failed to fetch'')"
    by (simp add: fetchAlternateGeoData_def io_simps failing_network_def)
  show ?thesis using h resolver_failure_aborts [OF h] by simp
qed

text \<open>
  C3: when the profiler and the resolver return and \<open>sendDataToLog\<close> returns \<open>False\<close>
  on the merged payload, the run does not throw and returns the merged payload: the
  object with the ten fields of the client data followed by the ten fields of the geo
  data, each field with the value it has in its record.
\<close>

theorem transmission_failure_returns_payload:
  assumes "collectClientData eng env clientName = Inr clientData"
      and "fst (fetchAlternateGeoData eng net) = Inr geoData"
      and "fst (sendDataToLog net (JObj (own_props clientData @ own_props geoData)))
             = Inr False"
  shows "fst (runAlternateDataTransfer eng env net clientName) =
           Inr (JObj (own_props clientData @ own_props geoData)) \<and>
         map fst (own_props clientData @ own_props geoData) =
           [''name'', ''logTimestamp'', ''os'', ''browser'', ''resolution'', ''deviceType'',
            ''connectionSpeed'', ''browserLanguage'', ''localTimeFormatted'', ''userAgent'',
            ''ip'', ''org'', ''asn'', ''countryCode'', ''region'', ''city'', ''zip'',
            ''coords'', ''timezone'', ''apiSource''] \<and>
         (\<forall>k. prop_of (JObj (own_props clientData @ own_props geoData)) k =
                (if k \<in> set (map fst (own_props geoData)) then prop_of geoData k
                 else prop_of clientData k))"
proof -
  have c: "clientData = JObj (own_props clientData)"
    using profile_keys [OF assms(1)] by (rule is_object)
  have g: "geoData = JObj (own_props geoData)"
    using geo_keys [OF assms(2)] by (rule is_object)
  have "fst (runAlternateDataTransfer eng env net clientName) =
          Inr (JObj (own_props clientData @ own_props geoData))"
    by (simp add: run_after_resolver [OF assms(1,2)] spread_profile_geo [OF assms(1,2)])
  moreover have "map fst (own_props clientData @ own_props geoData) =
           [''name'', ''logTimestamp'', ''os'', ''browser'', ''resolution'', ''deviceType'',
            ''connectionSpeed'', ''browserLanguage'', ''localTimeFormatted'', ''userAgent'',
            ''ip'', ''org'', ''asn'', ''countryCode'', ''region'', ''city'', ''zip'',
            ''coords'', ''timezone'', ''apiSource'']"
    by (simp add: profile_keys [OF assms(1)] geo_keys [OF assms(2)])
  moreover have "prop_of (JObj (own_props clientData @ own_props geoData)) k =
                (if k \<in> set (map fst (own_props geoData)) then prop_of geoData k
                 else prop_of clientData k)" for k
    using prop_of_append [OF profile_geo_disjoint [OF assms(1,2)], of k] c g by metis
  ultimately show ?thesis by blast
qed

theorem transmission_failure_returns_payload_witness:
  "collectClientData example_engine example_browser None =
     Inr (example_profile ''N/A (N/A)'') \<and>
   fst (fetchAlternateGeoData example_engine (geo_network acme_body 500)) = Inr acme_record \<and>
   fst (sendDataToLog (geo_network acme_body 500)
          (JObj (own_props (example_profile ''N/A (N/A)'') @ own_props acme_record))) =
     Inr False \<and>
   fst (runAlternateDataTransfer example_engine example_browser (geo_network acme_body 500)
          None) =
     Inr (JObj [(''name'', JStr ''Anonymous''),
                (''logTimestamp'', JStr ''2024-01-01T00:00:00.000Z''),
                (''os'', JStr ''Linux''),
                (''browser'', JStr ''Firefox (v120)''),
                (''resolution'', JStr ''1920x1080''),
                (''deviceType'', JStr ''Desktop''),
                (''connectionSpeed'', JStr ''N/A (N/A)''),
                (''browserLanguage'', JStr ''en-US''),
                (''localTimeFormatted'', JStr ''Mon, Jan 1, 2024, 12:00 AM''),
                (''userAgent'',
                   JStr ''Mozilla/5.0 (X11; Linux x86_64; rv:120.0) Gecko/20100101 Firefox/120.0''),
                (''ip'', JStr ''1.2.3.4''), (''org'', JStr ''ACME''),
                (''asn'', JStr ''AS1 ACME''), (''countryCode'', JStr ''US''),
                (''region'', JStr ''CA''), (''city'', JStr ''X''),
                (''zip'', JStr ''90000''), (''coords'', JStr ''1,2''),
                (''timezone'', JStr ''UTC''), (''apiSource'', JStr ''ip-api.com'')]) \<and>
   prop_of (JObj (own_props (example_profile ''N/A (N/A)'') @ own_props acme_record))
     ''coords'' = JStr ''1,2'' \<and>
   prop_of (JObj (own_props (example_profile ''N/A (N/A)'') @ own_props acme_record))
     ''os'' = JStr ''Linux''"
proof -
  have a: "collectClientData example_engine example_browser None =
             Inr (example_profile ''N/A (N/A)'')"
    by (rule profile_without_connection)
  have b: "fst (fetchAlternateGeoData example_engine (geo_network acme_body 500)) =
             Inr acme_record"
    by (rule fetch_acme)
  have c: "fst (sendDataToLog (geo_network acme_body 500)
                 (JObj (own_props (example_profile ''N/A (N/A)'') @ own_props acme_record))) =
             Inr False"
    by (rule sendDataToLog_status_500)
  show ?thesis
    using a b c transmission_failure_returns_payload [OF a b c]
    by (simp add: example_profile_def acme_record_def)
qed

text \<open>
  C1, as the spec states it, fails: the resolver copies the fields of the response and
  substitutes no sentinel, so a success response that lacks a field leaves that field
  \<^verbatim>\<open>undefined\<close> in the record and in the merged payload handed to the transmitter.
\<close>

theorem geo_field_undefined:
  "fst (fetchAlternateGeoData example_engine (geo_network bare_success_body 200)) =
     Inr (JObj [(''ip'', JUndefined), (''org'', JUndefined), (''asn'', JUndefined),
                (''countryCode'', JUndefined), (''region'', JUndefined),
                (''city'', JUndefined), (''zip'', JUndefined),
                (''coords'', JStr ''undefined,undefined''), (''timezone'', JUndefined),
                (''apiSource'', JStr ''ip-api.com'')]) \<and>
   fst (runAlternateDataTransfer example_engine example_browser
          (geo_network bare_success_body 200) None) =
     Inr (JObj [(''name'', JStr ''Anonymous''),
                (''logTimestamp'', JStr ''2024-01-01T00:00:00.000Z''),
                (''os'', JStr ''Linux''),
                (''browser'', JStr ''Firefox (v120)''),
                (''resolution'', JStr ''1920x1080''),
                (''deviceType'', JStr ''Desktop''),
                (''connectionSpeed'', JStr ''N/A (N/A)''),
                (''browserLanguage'', JStr ''en-US''),
                (''localTimeFormatted'', JStr ''Mon, Jan 1, 2024, 12:00 AM''),
                (''userAgent'',
                   JStr ''Mozilla/5.0 (X11; Linux x86_64; rv:120.0) Gecko/20100101 Firefox/120.0''),
                (''ip'', JUndefined), (''org'', JUndefined), (''asn'', JUndefined),
                (''countryCode'', JUndefined), (''region'', JUndefined),
                (''city'', JUndefined), (''zip'', JUndefined),
                (''coords'', JStr ''undefined,undefined''), (''timezone'', JUndefined),
                (''apiSource'', JStr ''ip-api.com'')])"
proof -
  have r: "fst (fetchAlternateGeoData example_engine (geo_network bare_success_body 200)) =
     Inr (JObj [(''ip'', JUndefined), (''org'', JUndefined), (''asn'', JUndefined),
                (''countryCode'', JUndefined), (''region'', JUndefined),
                (''city'', JUndefined), (''zip'', JUndefined),
                (''coords'', JStr ''undefined,undefined''), (''timezone'', JUndefined),
                (''apiSource'', JStr ''ip-api.com'')])"
    by (simp add: fetchAlternateGeoData_result geo_network_geo_request ok_def
          bare_success_body_def)
  show ?thesis
    by (simp add: r run_after_resolver [OF profile_without_connection r] example_profile_def
          spread_def)
qed

text \<open>
  C1, amended: a client profile the profiler returns has its ten fields, each a string (a
  real value or the \<open>N/A\<close> sentinel). A geo record the resolver returns has its ten keys,
  with \<open>coords\<close> and \<open>apiSource\<close> strings, and each of the other eight fields is the
  field of the response as it is, \<^verbatim>\<open>undefined\<close> when the response lacks it. When both
  return, the payload the transmitter is handed is the object of these twenty fields.
\<close>

theorem payload_fields:
  "(\<forall>clientData. collectClientData eng env clientName = Inr clientData \<longrightarrow>
      map fst (own_props clientData) =
        [''name'', ''logTimestamp'', ''os'', ''browser'', ''resolution'', ''deviceType'',
         ''connectionSpeed'', ''browserLanguage'', ''localTimeFormatted'', ''userAgent''] \<and>
      (\<forall>k \<in> set (map fst (own_props clientData)). \<exists>s. prop_of clientData k = JStr s)) \<and>
   (\<forall>geoData. fst (fetchAlternateGeoData eng net) = Inr geoData \<longrightarrow>
      (\<exists>response body lat lon.
         net geo_request = Inr response \<and> json_body response = Inr body \<and>
         ToString eng (prop_of body ''lat'') = Inr lat \<and>
         ToString eng (prop_of body ''lon'') = Inr lon \<and>
         geoData =
           JObj [(''ip'', prop_of body ''query''),
                 (''org'', prop_of body ''isp''),
                 (''asn'', prop_of body ''as''),
                 (''countryCode'', prop_of body ''countryCode''),
                 (''region'', prop_of body ''regionName''),
                 (''city'', prop_of body ''city''),
                 (''zip'', prop_of body ''zip''),
                 (''coords'', JStr (lat @ '','' @ lon)),
                 (''timezone'', prop_of body ''timezone''),
                 (''apiSource'', JStr ''ip-api.com'')])) \<and>
   (\<forall>clientData geoData.
      collectClientData eng env clientName = Inr clientData \<and>
      fst (fetchAlternateGeoData eng net) = Inr geoData \<longrightarrow>
      map fst (own_props clientData @ own_props geoData) =
        [''name'', ''logTimestamp'', ''os'', ''browser'', ''resolution'', ''deviceType'',
         ''connectionSpeed'', ''browserLanguage'', ''localTimeFormatted'', ''userAgent'',
         ''ip'', ''org'', ''asn'', ''countryCode'', ''region'', ''city'', ''zip'', ''coords'',
         ''timezone'', ''apiSource''] \<and>
      Fetch (log_request (JObj (own_props clientData @ own_props geoData)))
        \<in> set (snd (runAlternateDataTransfer eng env net clientName)))"
proof (intro conjI allI impI)
  fix clientData
  assume p: "collectClientData eng env clientName = Inr clientData"
  show "map fst (own_props clientData) =
        [''name'', ''logTimestamp'', ''os'', ''browser'', ''resolution'', ''deviceType'',
         ''connectionSpeed'', ''browserLanguage'', ''localTimeFormatted'', ''userAgent'']"
    by (rule profile_keys [OF p])
  from collectClientData_Inr [OF p]
  show "\<forall>k \<in> set (map fst (own_props clientData)). \<exists>s. prop_of clientData k = JStr s"
    by auto
next
  fix geoData
  assume "fst (fetchAlternateGeoData eng net) = Inr geoData"
  then show "\<exists>response body lat lon.
         net geo_request = Inr response \<and> json_body response = Inr body \<and>
         ToString eng (prop_of body ''lat'') = Inr lat \<and>
         ToString eng (prop_of body ''lon'') = Inr lon \<and>
         geoData =
           JObj [(''ip'', prop_of body ''query''),
                 (''org'', prop_of body ''isp''),
                 (''asn'', prop_of body ''as''),
                 (''countryCode'', prop_of body ''countryCode''),
                 (''region'', prop_of body ''regionName''),
                 (''city'', prop_of body ''city''),
                 (''zip'', prop_of body ''zip''),
                 (''coords'', JStr (lat @ '','' @ lon)),
                 (''timezone'', prop_of body ''timezone''),
                 (''apiSource'', JStr ''ip-api.com'')]"
    by (rule fetchAlternateGeoData_Inr)
next
  fix clientData geoData
  assume "collectClientData eng env clientName = Inr clientData \<and>
      fst (fetchAlternateGeoData eng net) = Inr geoData"
  then have p: "collectClientData eng env clientName = Inr clientData"
    and g: "fst (fetchAlternateGeoData eng net) = Inr geoData"
    by simp_all
  show "map fst (own_props clientData @ own_props geoData) =
        [''name'', ''logTimestamp'', ''os'', ''browser'', ''resolution'', ''deviceType'',
         ''connectionSpeed'', ''browserLanguage'', ''localTimeFormatted'', ''userAgent'',
         ''ip'', ''org'', ''asn'', ''countryCode'', ''region'', ''city'', ''zip'', ''coords'',
         ''timezone'', ''apiSource'']"
    by (simp add: profile_keys [OF p] geo_keys [OF g])
  show "Fetch (log_request (JObj (own_props clientData @ own_props geoData)))
        \<in> set (snd (runAlternateDataTransfer eng env net clientName))"
    using sendDataToLog_request [of "JObj (own_props clientData @ own_props geoData)" net]
    by (simp add: run_after_resolver [OF p g] spread_profile_geo [OF p g])
qed

theorem payload_fields_witness:
  "collectClientData example_engine example_browser None =
     Inr (example_profile ''N/A (N/A)'') \<and>
   map fst (own_props (example_profile ''N/A (N/A)'')) =
     [''name'', ''logTimestamp'', ''os'', ''browser'', ''resolution'', ''deviceType'',
      ''connectionSpeed'', ''browserLanguage'', ''localTimeFormatted'', ''userAgent''] \<and>
   prop_of (example_profile ''N/A (N/A)'') ''connectionSpeed'' = JStr ''N/A (N/A)'' \<and>
   prop_of (example_profile ''N/A (N/A)'') ''browserLanguage'' = JStr ''en-US'' \<and>
   fst (fetchAlternateGeoData example_engine (geo_network acme_body 200)) = Inr acme_record \<and>
   map fst (own_props (example_profile ''N/A (N/A)'') @ own_props acme_record) =
     [''name'', ''logTimestamp'', ''os'', ''browser'', ''resolution'', ''deviceType'',
      ''connectionSpeed'', ''browserLanguage'', ''localTimeFormatted'', ''userAgent'',
      ''ip'', ''org'', ''asn'', ''countryCode'', ''region'', ''city'', ''zip'', ''coords'',
      ''timezone'', ''apiSource''] \<and>
   Fetch (log_request (JObj (own_props (example_profile ''N/A (N/A)'') @ own_props acme_record)))
     \<in> set (snd (runAlternateDataTransfer example_engine example_browser
                    (geo_network acme_body 200) None))"
  using payload_fields [of example_engine example_browser None "geo_network acme_body 200"]
  by (simp add: fetch_acme profile_without_connection example_profile_def acme_record_def)

end
